theory Spec2Isabelle
  imports Complex_Main
begin

section \<open>QuantPy: stocks and portfolios (qpy/portfolio.py)\<close>

text \<open>
  A shallow embedding of the classes \<open>Stock\<close> and \<open>Portfolio\<close> of \<open>qpy/portfolio.py\<close>.
  Python objects are records, a method that mutates \<open>self\<close> returns the new record, and
  every exception is a value of the type \<open>error\<close>. A method of \<open>Portfolio\<close> that can
  raise after it has already changed the object returns the error together with the
  object as it is at the raise.

  Numbers: a finite float is idealised as a real number; the value pandas and numpy give
  for a statistic that is not defined (too few observations, a division by zero, the
  square root of a negative number) is \<open>NaN\<close>.
\<close>

subsection \<open>Errors and numbers\<close>

datatype error =
    ValueError | KeyError | AttributeError | IndexError | TypeError
  | InputShapeError | InvalidParameterError | UndefinedSharpe

datatype float = NaN | Fin real

fun nadd :: "float \<Rightarrow> float \<Rightarrow> float" where
  "nadd (Fin x) (Fin y) = Fin (x + y)"
| "nadd _ _ = NaN"

fun nsub :: "float \<Rightarrow> float \<Rightarrow> float" where
  "nsub (Fin x) (Fin y) = Fin (x - y)"
| "nsub _ _ = NaN"

fun nmul :: "float \<Rightarrow> float \<Rightarrow> float" where
  "nmul (Fin x) (Fin y) = Fin (x * y)"
| "nmul _ _ = NaN"

fun ndiv :: "float \<Rightarrow> float \<Rightarrow> float" where
  "ndiv (Fin x) (Fin y) = (if y = 0 then NaN else Fin (x / y))"
| "ndiv _ _ = NaN"

text \<open>\<open>np.sqrt\<close>: the square root of a negative number is \<open>nan\<close>.\<close>

definition np_sqrt :: "real \<Rightarrow> float" where
  "np_sqrt x = (if x < 0 then NaN else Fin (sqrt x))"

fun nsqrt :: "float \<Rightarrow> float" where
  "nsqrt (Fin x) = np_sqrt x"
| "nsqrt NaN = NaN"

subsection \<open>pandas: data frames and their statistics\<close>

text \<open>
  A \<open>DataFrame\<close> of prices: the index (dates, as day numbers) and the columns in their
  order, each a label with its values. A \<open>Series\<close> of per-column results is a list of
  labelled values.
\<close>

record DataFrame =
  index :: "int list"
  columns :: "(string \<times> float list) list"

type_synonym Series = "(string \<times> float) list"

definition empty_DataFrame :: DataFrame where
  "empty_DataFrame = \<lparr>index = [], columns = []\<rparr>"

definition labels :: "DataFrame \<Rightarrow> string list" where
  "labels d = map fst (columns d)"

text \<open>
  \<open>DataFrame.insert(loc=len(columns), column=c, value=v)\<close> with \<open>v\<close> a one-dimensional
  array. A frame whose index is empty takes the positions of a non-empty \<open>v\<close> as its index
  (its columns, if it has any, are filled with NaN); then the length of \<open>v\<close> must be that
  of the index and the label must be new, else \<open>ValueError\<close>. The frame is changed in
  place, so an error returns the frame as it is then.
\<close>

definition pd_insert :: "DataFrame \<Rightarrow> string \<Rightarrow> float list \<Rightarrow> (error \<times> DataFrame) + DataFrame" where
  "pd_insert d c v =
     (let d1 = (if index d = [] \<and> v \<noteq> []
                then \<lparr>index = map int [0..<length v],
                      columns = map (\<lambda>(l, vs). (l, replicate (length v) NaN)) (columns d)\<rparr>
                else d)
      in if length v = length (index d1)
         then (if c \<in> set (labels d1) then Inl (ValueError, d1)
               else Inr (d1\<lparr>columns := columns d1 @ [(c, v)]\<rparr>))
         else Inl (ValueError, d1))"

text \<open>\<open>DataFrame.set_index(array, inplace=True)\<close>: the array must have one entry per row.\<close>

definition pd_set_index :: "DataFrame \<Rightarrow> int list \<Rightarrow> error + DataFrame" where
  "pd_set_index d ix =
     (if length ix = length (index d) then Inr (d\<lparr>index := ix\<rparr>) else Inl ValueError)"

text \<open>The statistics skip NaN. \<open>moment k v\<close> is the sum of the k-th powers of the
  deviations from the mean.\<close>

fun dropna :: "float list \<Rightarrow> real list" where
  "dropna [] = []"
| "dropna (NaN # xs) = dropna xs"
| "dropna (Fin x # xs) = x # dropna xs"

definition mean :: "real list \<Rightarrow> real" where
  "mean v = sum_list v / real (length v)"

definition moment :: "nat \<Rightarrow> real list \<Rightarrow> real" where
  "moment k v = sum_list (map (\<lambda>x. (x - mean v) ^ k) v)"

definition pd_mean :: "float list \<Rightarrow> float" where
  "pd_mean xs = (let v = dropna xs in if v = [] then NaN else Fin (mean v))"

text \<open>\<open>std()\<close>: the sample standard deviation (ddof = 1).\<close>

definition pd_std :: "float list \<Rightarrow> float" where
  "pd_std xs =
     (let v = dropna xs in
      if length v < 2 then NaN else Fin (sqrt (moment 2 v / (real (length v) - 1))))"

text \<open>\<open>skew()\<close>: the adjusted Fisher-Pearson coefficient; \<open>m2 ** 1.5\<close> is
  \<open>m2 * sqrt m2\<close>.\<close>

definition pd_skew :: "float list \<Rightarrow> float" where
  "pd_skew xs =
     (let v = dropna xs; n = real (length v); m2 = moment 2 v; m3 = moment 3 v in
      if length v < 3 then NaN
      else if m2 = 0 then Fin 0
      else Fin ((n * sqrt (n - 1) / (n - 2)) * (m3 / (m2 * sqrt m2))))"

text \<open>\<open>kurt()\<close>: the unbiased excess kurtosis.\<close>

definition pd_kurt :: "float list \<Rightarrow> float" where
  "pd_kurt xs =
     (let v = dropna xs; n = real (length v); m2 = moment 2 v; m4 = moment 4 v;
          adj = 3 * (n - 1) ^ 2 / ((n - 2) * (n - 3));
          numer = n * (n + 1) * (n - 1) * m4;
          denom = (n - 2) * (n - 3) * m2 ^ 2 in
      if length v < 4 then NaN
      else if denom = 0 then Fin 0
      else Fin (numer / denom - adj))"

definition per_column :: "(float list \<Rightarrow> float) \<Rightarrow> DataFrame \<Rightarrow> Series" where
  "per_column f d = map (\<lambda>(l, vs). (l, f vs)) (columns d)"

text \<open>\<open>cov()\<close>: the sample covariance of each pair of columns, over the rows where both
  have a value.\<close>

fun complete_pairs :: "float list \<Rightarrow> float list \<Rightarrow> (real \<times> real) list" where
  "complete_pairs (Fin x # xs) (Fin y # ys) = (x, y) # complete_pairs xs ys"
| "complete_pairs (_ # xs) (_ # ys) = complete_pairs xs ys"
| "complete_pairs _ _ = []"

definition cov_pair :: "float list \<Rightarrow> float list \<Rightarrow> float" where
  "cov_pair xs ys =
     (let ps = complete_pairs xs ys; a = map fst ps; b = map snd ps in
      if length ps < 2 then NaN
      else Fin (sum_list (map (\<lambda>(x, y). (x - mean a) * (y - mean b)) ps)
                / (real (length ps) - 1)))"

definition pd_cov :: "DataFrame \<Rightarrow> float list list" where
  "pd_cov d = map (\<lambda>(l, xs). map (\<lambda>(l', ys). cov_pair xs ys) (columns d)) (columns d)"

subsection \<open>qpy.pf\_returns and qpy.pf\_quants\<close>

text \<open>
  Modelled from the spec: \<open>qpy/pf_returns.py\<close> is not among the sources.
  \<open>dailyReturns(prices)\<close>: the percentage change \<open>(price[t] - price[t-1]) / price[t-1]\<close>
  for \<open>t > 0\<close>; the first row is undefined and is dropped. An empty series is an error.
\<close>

fun pct_change :: "float list \<Rightarrow> float list" where
  "pct_change (p # q # ps) = ndiv (nsub q p) p # pct_change (q # ps)"
| "pct_change _ = []"

definition dailyReturns :: "DataFrame \<Rightarrow> error + DataFrame" where
  "dailyReturns d =
     (if index d = [] then Inl InputShapeError
      else Inr \<lparr>index = tl (index d),
                columns = map (\<lambda>(l, vs). (l, pct_change vs)) (columns d)\<rparr>)"

text \<open>
  Modelled from the spec: \<open>qpy/pf_returns.py\<close> is not among the sources.
  \<open>historicalMeanReturn(prices, freq)\<close>: the mean of \<open>dailyReturns(prices)\<close> multiplied
  by \<open>freq\<close>, which must be a positive integer.
\<close>

definition historicalMeanReturn :: "DataFrame \<Rightarrow> int \<Rightarrow> error + Series" where
  "historicalMeanReturn d freq =
     (if freq \<le> 0 then Inl InvalidParameterError
      else case dailyReturns d of
             Inl e \<Rightarrow> Inl e
           | Inr r \<Rightarrow> Inr (per_column (\<lambda>vs. nmul (pd_mean vs) (Fin (real_of_int freq))) r))"

text \<open>
  Modelled from the spec: \<open>qpy/pf_quants.py\<close> is not among the sources.
  \<open>weightedMean(means, weights)\<close>: the dot product of the two vectors; a length mismatch
  is a fatal input error.
\<close>

fun dot :: "float list \<Rightarrow> real list \<Rightarrow> float" where
  "dot (m # ms) (w # ws) = nadd (nmul m (Fin w)) (dot ms ws)"
| "dot _ _ = Fin 0"

definition weightedMean :: "float list \<Rightarrow> real list \<Rightarrow> error + float" where
  "weightedMean means weights =
     (if length means = length weights then Inr (dot means weights) else Inl InputShapeError)"

text \<open>
  Modelled from the spec: \<open>qpy/pf_quants.py\<close> is not among the sources.
  \<open>weightedStd(cov, weights)\<close>: \<open>sqrt(weights^T . cov . weights)\<close>; the matrix must be
  square with the dimension of the weights.
\<close>

definition weightedStd :: "float list list \<Rightarrow> real list \<Rightarrow> error + float" where
  "weightedStd cov weights =
     (if length cov = length weights
      then (if list_all (\<lambda>row. length row = length weights) cov
            then Inr (nsqrt (dot (map (\<lambda>row. dot row weights) cov) weights))
            else Inl InputShapeError)
      else Inl InputShapeError)"

text \<open>
  Modelled from the spec: \<open>qpy/pf_quants.py\<close> is not among the sources.
  \<open>sharpeRatio(expectedReturn, volatility, riskFreeRate)\<close>:
  \<open>(expectedReturn - riskFreeRate) / volatility\<close>; a volatility of 0 is reported to the
  caller as the condition \<open>UndefinedSharpe\<close>.
\<close>

definition sharpeRatio :: "float \<Rightarrow> float \<Rightarrow> real \<Rightarrow> error + float" where
  "sharpeRatio expRet vol riskFreeRate =
     (if vol = Fin 0 then Inl UndefinedSharpe
      else Inr (ndiv (nsub expRet (Fin riskFreeRate)) vol))"

subsection \<open>class Stock\<close>

text \<open>The investment information of a stock: the required labels \<open>Name\<close> and \<open>FMV\<close>, and
  whatever else the row holds.\<close>

record InvestmentInfo =
  Name :: string
  FMV :: real
  others :: "(string \<times> string) list"

record Stock =
  name :: string
  investmentinfo :: InvestmentInfo
  stock_data :: DataFrame
  expectedReturn :: Series
  volatility :: Series
  skew :: float
  kurtosis :: float

definition getInvestmentInfo :: "Stock \<Rightarrow> InvestmentInfo" where
  "getInvestmentInfo self = investmentinfo self"

definition compDailyReturns :: "Stock \<Rightarrow> error + DataFrame" where
  "compDailyReturns self = dailyReturns (stock_data self)"

definition compExpectedReturn :: "Stock \<Rightarrow> int \<Rightarrow> error + Series" where
  "compExpectedReturn self freq = historicalMeanReturn (stock_data self) freq"

definition compVolatility :: "Stock \<Rightarrow> int \<Rightarrow> error + Series" where
  "compVolatility self freq =
     (case compDailyReturns self of
        Inl e \<Rightarrow> Inl e
      | Inr r \<Rightarrow> Inr (map (\<lambda>(l, s). (l, nmul s (np_sqrt (real_of_int freq))))
                       (per_column pd_std r)))"

text \<open>\<open>.values[0]\<close> of a series with no entry raises \<open>IndexError\<close>.\<close>

definition values0 :: "Series \<Rightarrow> error + float" where
  "values0 s = (case s of [] \<Rightarrow> Inl IndexError | (l, v) # _ \<Rightarrow> Inr v)"

definition compSkew :: "Stock \<Rightarrow> error + float" where
  "compSkew self = values0 (per_column pd_skew (stock_data self))"

definition compKurtosis :: "Stock \<Rightarrow> error + float" where
  "compKurtosis self = values0 (per_column pd_kurt (stock_data self))"

text \<open>
  \<open>Stock.__init__\<close>. The methods read only the attributes that are set before they are
  called; the record starts with the derived fields blank and they are assigned in the
  order of the source.
\<close>

definition Stock_init :: "InvestmentInfo \<Rightarrow> DataFrame \<Rightarrow> error + Stock" where
  "Stock_init info data =
     (let s0 = \<lparr>name = Name info, investmentinfo = info, stock_data = data,
                expectedReturn = [], volatility = [], skew = NaN, kurtosis = NaN\<rparr>
      in case compExpectedReturn s0 252 of
           Inl e \<Rightarrow> Inl e
         | Inr er \<Rightarrow>
             (case compVolatility (s0\<lparr>expectedReturn := er\<rparr>) 252 of
                Inl e \<Rightarrow> Inl e
              | Inr vo \<Rightarrow>
                  (case compSkew (s0\<lparr>expectedReturn := er, volatility := vo\<rparr>) of
                     Inl e \<Rightarrow> Inl e
                   | Inr sk \<Rightarrow>
                       (case compKurtosis
                               (s0\<lparr>expectedReturn := er, volatility := vo, skew := sk\<rparr>) of
                          Inl e \<Rightarrow> Inl e
                        | Inr ku \<Rightarrow>
                            Inr (s0\<lparr>expectedReturn := er, volatility := vo,
                                     skew := sk, kurtosis := ku\<rparr>)))))"

subsection \<open>class Portfolio\<close>

text \<open>
  The attributes of a \<open>Portfolio\<close>. \<open>portfolio\<close> is the table of investment information,
  one row per call of \<open>append\<close>; \<open>stocks\<close> is the dictionary of the stocks by name. The
  cached statistics hold Python's \<open>None\<close> until they are computed; they carry the prefix
  \<open>pf\<close> where \<open>Stock\<close> has a field of the same name. \<open>totalinvestment_priv\<close> is the
  private attribute \<open>__totalinvestment\<close> behind the property, \<open>None\<close> as long as it has
  not been assigned.
\<close>

record Portfolio =
  portfolio :: "InvestmentInfo list"
  stocks :: "string \<rightharpoonup> Stock"
  pf_stock_data :: DataFrame
  pf_expectedReturn :: "float option"
  pf_volatility :: "float option"
  sharpe :: "float option"
  pf_skew :: "Series option"
  pf_kurtosis :: "Series option"
  totalinvestment_priv :: "real option"

text \<open>A value assigned to the property: \<open>None\<close>, a float or an integer, or anything else.\<close>

datatype pyval = PyNone | PyNum real | PyOther

text \<open>The getter: reading an attribute that was never assigned raises
  \<open>AttributeError\<close>.\<close>

definition totalinvestment :: "Portfolio \<Rightarrow> error + real" where
  "totalinvestment self =
     (case totalinvestment_priv self of None \<Rightarrow> Inl AttributeError | Some v \<Rightarrow> Inr v)"

definition totalinvestment_setter :: "Portfolio \<Rightarrow> pyval \<Rightarrow> error + Portfolio" where
  "totalinvestment_setter self val =
     (case val of
        PyNone \<Rightarrow> Inr self
      | PyOther \<Rightarrow> Inl ValueError
      | PyNum v \<Rightarrow>
          if v \<le> 0 then Inl ValueError else Inr (self\<lparr>totalinvestment_priv := Some v\<rparr>))"

text \<open>\<open>Portfolio.__init__\<close>: the last assignment goes through the setter, which raises
  nothing for \<open>None\<close>.\<close>

definition Portfolio_fields :: Portfolio where
  "Portfolio_fields =
     \<lparr>portfolio = [], stocks = Map.empty, pf_stock_data = empty_DataFrame,
      pf_expectedReturn = None, pf_volatility = None, sharpe = None,
      pf_skew = None, pf_kurtosis = None, totalinvestment_priv = None\<rparr>"

definition Portfolio_init :: Portfolio where
  "Portfolio_init =
     (case totalinvestment_setter Portfolio_fields PyNone of
        Inr self \<Rightarrow> self
      | Inl e \<Rightarrow> Portfolio_fields)"

text \<open>\<open>_addStockData\<close>: the loop over the columns of \<open>df\<close>. \<open>df[datacol].values\<close> is a
  one-dimensional array only if the label occurs once in \<open>df\<close>; \<open>insert\<close> refuses
  anything else with \<open>ValueError\<close>.\<close>

fun insert_columns ::
  "DataFrame \<Rightarrow> string list \<Rightarrow> (string \<times> float list) list \<Rightarrow> (error \<times> DataFrame) + DataFrame"
where
  "insert_columns d ls [] = Inr d"
| "insert_columns d ls ((c, v) # cs) =
     (if count_list ls c = 1
      then (case pd_insert d c v of
              Inl ed \<Rightarrow> Inl ed
            | Inr d' \<Rightarrow> insert_columns d' ls cs)
      else Inl (ValueError, d))"

definition addStockData :: "Portfolio \<Rightarrow> DataFrame \<Rightarrow> (error \<times> Portfolio) + Portfolio" where
  "addStockData self df =
     (case insert_columns (pf_stock_data self) (labels df) (columns df) of
        Inl (e, d) \<Rightarrow> Inl (e, self\<lparr>pf_stock_data := d\<rparr>)
      | Inr d \<Rightarrow>
          (case pd_set_index d (index df) of
             Inl e \<Rightarrow> Inl (e, self\<lparr>pf_stock_data := d\<rparr>)
           | Inr d' \<Rightarrow> Inr (self\<lparr>pf_stock_data := d'\<rparr>)))"

definition getStocks :: "Portfolio \<Rightarrow> (string \<rightharpoonup> Stock)" where
  "getStocks self = stocks self"

definition getStock :: "Portfolio \<Rightarrow> string \<Rightarrow> error + Stock" where
  "getStock self n = (case getStocks self n of None \<Rightarrow> Inl KeyError | Some s \<Rightarrow> Inr s)"

text \<open>\<open>self.portfolio['FMV']\<close>: the table has the column once a row has been appended;
  before, the label is unknown and the access raises \<open>KeyError\<close>.\<close>

definition getitem_FMV :: "InvestmentInfo list \<Rightarrow> error + real list" where
  "getitem_FMV rows = (if rows = [] then Inl KeyError else Inr (map FMV rows))"

definition compPfWeights :: "Portfolio \<Rightarrow> error + real list" where
  "compPfWeights self =
     (case getitem_FMV (portfolio self) of
        Inl e \<Rightarrow> Inl e
      | Inr fmv \<Rightarrow>
          (case totalinvestment self of
             Inl e \<Rightarrow> Inl e
           | Inr t \<Rightarrow> Inr (map (\<lambda>x. x / t) fmv)))"

definition compPfExpectedReturn :: "Portfolio \<Rightarrow> int \<Rightarrow> error + (float \<times> Portfolio)" where
  "compPfExpectedReturn self freq =
     (case historicalMeanReturn (pf_stock_data self) freq of
        Inl e \<Rightarrow> Inl e
      | Inr pf_return_means \<Rightarrow>
          (case compPfWeights self of
             Inl e \<Rightarrow> Inl e
           | Inr weights \<Rightarrow>
               (case weightedMean (map snd pf_return_means) weights of
                  Inl e \<Rightarrow> Inl e
                | Inr r \<Rightarrow> Inr (r, self\<lparr>pf_expectedReturn := Some r\<rparr>))))"

definition compCovPf :: "Portfolio \<Rightarrow> error + float list list" where
  "compCovPf self =
     (case dailyReturns (pf_stock_data self) of
        Inl e \<Rightarrow> Inl e
      | Inr returns \<Rightarrow> Inr (pd_cov returns))"

definition compPfVolatility :: "Portfolio \<Rightarrow> int \<Rightarrow> error + (float \<times> Portfolio)" where
  "compPfVolatility self freq =
     (case compCovPf self of
        Inl e \<Rightarrow> Inl e
      | Inr cov \<Rightarrow>
          (case compPfWeights self of
             Inl e \<Rightarrow> Inl e
           | Inr weights \<Rightarrow>
               (case weightedStd cov weights of
                  Inl e \<Rightarrow> Inl e
                | Inr sd \<Rightarrow>
                    (let v = nmul sd (np_sqrt (real_of_int freq))
                     in Inr (v, self\<lparr>pf_volatility := Some v\<rparr>)))))"

text \<open>\<open>compPfSharpe\<close> passes the cached fields on; arithmetic on \<open>None\<close> raises
  \<open>TypeError\<close>.\<close>

definition compPfSharpe :: "Portfolio \<Rightarrow> real \<Rightarrow> error + (float \<times> Portfolio)" where
  "compPfSharpe self riskFreeRate =
     (case pf_expectedReturn self of
        None \<Rightarrow> Inl TypeError
      | Some er \<Rightarrow>
          (case pf_volatility self of
             None \<Rightarrow> Inl TypeError
           | Some vo \<Rightarrow>
               (case sharpeRatio er vo riskFreeRate of
                  Inl e \<Rightarrow> Inl e
                | Inr s \<Rightarrow> Inr (s, self\<lparr>sharpe := Some s\<rparr>))))"

definition compPfSkew :: "Portfolio \<Rightarrow> Series" where
  "compPfSkew self = per_column pd_skew (pf_stock_data self)"

definition compPfKurtosis :: "Portfolio \<Rightarrow> Series" where
  "compPfKurtosis self = per_column pd_kurt (pf_stock_data self)"

text \<open>\<open>addStock\<close>: each statement works on the object the one before has left; an error
  stops it there. The sum of the column \<open>FMV\<close> is a float or an integer.\<close>

definition addStock :: "Portfolio \<Rightarrow> Stock \<Rightarrow> (error \<times> Portfolio) + Portfolio" where
  "addStock self stock =
     (let self1 = self\<lparr>stocks := (stocks self)(name stock \<mapsto> stock)\<rparr>;
          self2 = self1\<lparr>portfolio := portfolio self1 @ [getInvestmentInfo stock]\<rparr>
      in case addStockData self2 (stock_data stock) of
           Inl ep \<Rightarrow> Inl ep
         | Inr self3 \<Rightarrow>
             (case totalinvestment_setter self3 (PyNum (sum_list (map FMV (portfolio self3)))) of
                Inl e \<Rightarrow> Inl (e, self3)
              | Inr self4 \<Rightarrow>
                  (case compPfExpectedReturn self4 252 of
                     Inl e \<Rightarrow> Inl (e, self4)
                   | Inr (er, self5) \<Rightarrow>
                       (case compPfVolatility self5 252 of
                          Inl e \<Rightarrow> Inl (e, self5)
                        | Inr (vo, self6) \<Rightarrow>
                            (case compPfSharpe self6 (5 / 1000) of
                               Inl e \<Rightarrow> Inl (e, self6)
                             | Inr (sh, self7) \<Rightarrow>
                                 (let self8 = self7\<lparr>pf_skew := Some (compPfSkew self7)\<rparr>
                                  in Inr (self8\<lparr>pf_kurtosis :=
                                                 Some (compPfKurtosis self8)\<rparr>)))))))"

text \<open>A run of calls of \<open>addStock\<close>, each on the portfolio the one before has left (as in
  the loop of \<open>_buildPortfolioFromDf\<close>); the first error ends it.\<close>

fun addStocks :: "Portfolio \<Rightarrow> Stock list \<Rightarrow> (error \<times> Portfolio) + Portfolio" where
  "addStocks self [] = Inr self"
| "addStocks self (s # ss) =
     (case addStock self s of
        Inl ep \<Rightarrow> Inl ep
      | Inr self' \<Rightarrow> addStocks self' ss)"

text \<open>\<open>optimisePortfolio\<close>. \<open>optimisePfMC\<close> (\<open>qpy/optimisation.py\<close>, not among the
  sources) is a parameter; its arguments are evaluated before it is called.\<close>

definition optimisePortfolio ::
  "(DataFrame \<Rightarrow> int \<Rightarrow> real \<Rightarrow> real \<Rightarrow> int \<Rightarrow> real list \<Rightarrow> bool \<Rightarrow> error + 'r) \<Rightarrow>
   Portfolio \<Rightarrow> real option \<Rightarrow> int \<Rightarrow> real \<Rightarrow> int \<Rightarrow> bool \<Rightarrow> error + 'r"
where
  "optimisePortfolio optimisePfMC self total_investment num_trials riskFreeRate freq plot =
     (case (case total_investment of None \<Rightarrow> totalinvestment self | Some t \<Rightarrow> Inr t) of
        Inl e \<Rightarrow> Inl e
      | Inr t \<Rightarrow>
          (case compPfWeights self of
             Inl e \<Rightarrow> Inl e
           | Inr initial_weights \<Rightarrow>
               optimisePfMC (pf_stock_data self) num_trials t riskFreeRate freq
                 initial_weights plot))"

subsection \<open>Concrete stocks and portfolios\<close>

text \<open>Stock A: 50 invested, prices 1, 2, 3 on the days 1 to 3; \<open>pfA\<close> is the portfolio
  that holds it alone.\<close>

definition infoA :: InvestmentInfo where
  "infoA = \<lparr>Name = ''A'', FMV = 50, others = []\<rparr>"

definition dataA :: DataFrame where
  "dataA = \<lparr>index = [1, 2, 3], columns = [(''A'', [Fin 1, Fin 2, Fin 3])]\<rparr>"

definition stockA :: Stock where
  "stockA =
     \<lparr>name = ''A'', investmentinfo = infoA, stock_data = dataA,
      expectedReturn = [(''A'', Fin 189)],
      volatility = [(''A'', Fin (sqrt (1 / 8) * sqrt 252))],
      skew = Fin 0, kurtosis = NaN\<rparr>"

definition pfA :: Portfolio where
  "pfA =
     \<lparr>portfolio = [infoA], stocks = [''A'' \<mapsto> stockA], pf_stock_data = dataA,
      pf_expectedReturn = Some (Fin 189),
      pf_volatility = Some (Fin (sqrt (1 / 8) * sqrt 252)),
      sharpe = Some (Fin (37799 / (200 * (sqrt (1 / 8) * sqrt 252)))),
      pf_skew = Some [(''A'', Fin 0)], pf_kurtosis = Some [(''A'', NaN)],
      totalinvestment_priv = Some 50\<rparr>"

text \<open>Stock B: 150 invested, prices 4, 6, 8 on the days 4 to 6, none of which is a day of
  stock A; \<open>pfAB\<close> holds A and B.\<close>

definition infoB :: InvestmentInfo where
  "infoB = \<lparr>Name = ''B'', FMV = 150, others = []\<rparr>"

definition dataB :: DataFrame where
  "dataB = \<lparr>index = [4, 5, 6], columns = [(''B'', [Fin 4, Fin 6, Fin 8])]\<rparr>"

definition stockB :: Stock where
  "stockB =
     \<lparr>name = ''B'', investmentinfo = infoB, stock_data = dataB,
      expectedReturn = [(''B'', Fin 105)],
      volatility = [(''B'', Fin (sqrt (1 / 72) * sqrt 252))],
      skew = Fin 0, kurtosis = NaN\<rparr>"

definition pfAB :: Portfolio where
  "pfAB =
     \<lparr>portfolio = [infoA, infoB], stocks = [''A'' \<mapsto> stockA, ''B'' \<mapsto> stockB],
      pf_stock_data =
        \<lparr>index = [4, 5, 6],
         columns = [(''A'', [Fin 1, Fin 2, Fin 3]), (''B'', [Fin 4, Fin 6, Fin 8])]\<rparr>,
      pf_expectedReturn = Some (Fin 126),
      pf_volatility = Some (Fin (sqrt (1 / 32) * sqrt 252)),
      sharpe = Some (Fin (25199 / (200 * (sqrt (1 / 32) * sqrt 252)))),
      pf_skew = Some [(''A'', Fin 0), (''B'', Fin 0)],
      pf_kurtosis = Some [(''A'', NaN), (''B'', NaN)],
      totalinvestment_priv = Some 200\<rparr>"

text \<open>A data frame is rectangular: every column has one value per row.\<close>

definition rectangular :: "DataFrame \<Rightarrow> bool" where
  "rectangular d = list_all (\<lambda>(l, v). length v = length (index d)) (columns d)"

text \<open>Stock Z: nothing invested. Stock C: prices on two days only.\<close>

definition infoZ :: InvestmentInfo where
  "infoZ = \<lparr>Name = ''Z'', FMV = 0, others = []\<rparr>"

definition dataZ :: DataFrame where
  "dataZ = \<lparr>index = [1, 2, 3], columns = [(''Z'', [Fin 1, Fin 2, Fin 3])]\<rparr>"

definition stockZ :: Stock where
  "stockZ =
     \<lparr>name = ''Z'', investmentinfo = infoZ, stock_data = dataZ,
      expectedReturn = [(''Z'', Fin 189)],
      volatility = [(''Z'', Fin (sqrt (1 / 8) * sqrt 252))],
      skew = Fin 0, kurtosis = NaN\<rparr>"

definition infoC :: InvestmentInfo where
  "infoC = \<lparr>Name = ''C'', FMV = 10, others = []\<rparr>"

definition dataC :: DataFrame where
  "dataC = \<lparr>index = [1, 2], columns = [(''C'', [Fin 1, Fin 2])]\<rparr>"

definition stockC :: Stock where
  "stockC =
     \<lparr>name = ''C'', investmentinfo = infoC, stock_data = dataC,
      expectedReturn = [(''C'', Fin 252)], volatility = [(''C'', NaN)],
      skew = NaN, kurtosis = NaN\<rparr>"

text \<open>A second stock of the name A, 150 invested, its prices under another label;
  \<open>pfAA\<close> is \<open>pfA\<close> after it has been added.\<close>

definition infoA2 :: InvestmentInfo where
  "infoA2 = \<lparr>Name = ''A'', FMV = 150, others = []\<rparr>"

definition dataA2 :: DataFrame where
  "dataA2 = \<lparr>index = [1, 2, 3], columns = [(''A - Adj. Close'', [Fin 4, Fin 6, Fin 8])]\<rparr>"

definition stockA2 :: Stock where
  "stockA2 =
     \<lparr>name = ''A'', investmentinfo = infoA2, stock_data = dataA2,
      expectedReturn = [(''A - Adj. Close'', Fin 105)],
      volatility = [(''A - Adj. Close'', Fin (sqrt (1 / 72) * sqrt 252))],
      skew = Fin 0, kurtosis = NaN\<rparr>"

definition pfAA :: Portfolio where
  "pfAA =
     \<lparr>portfolio = [infoA, infoA2], stocks = [''A'' \<mapsto> stockA2],
      pf_stock_data =
        \<lparr>index = [1, 2, 3],
         columns = [(''A'', [Fin 1, Fin 2, Fin 3]),
                    (''A - Adj. Close'', [Fin 4, Fin 6, Fin 8])]\<rparr>,
      pf_expectedReturn = Some (Fin 126),
      pf_volatility = Some (Fin (sqrt (1 / 32) * sqrt 252)),
      sharpe = Some (Fin (25199 / (200 * (sqrt (1 / 32) * sqrt 252)))),
      pf_skew = Some [(''A'', Fin 0), (''A - Adj. Close'', Fin 0)],
      pf_kurtosis = Some [(''A'', NaN), (''A - Adj. Close'', NaN)],
      totalinvestment_priv = Some 200\<rparr>"

text \<open>Stock D: prices 1, 2, 4, 8, which double from day to day.\<close>

definition infoD :: InvestmentInfo where
  "infoD = \<lparr>Name = ''D'', FMV = 100, others = []\<rparr>"

definition dataD :: DataFrame where
  "dataD = \<lparr>index = [1, 2, 3, 4], columns = [(''D'', [Fin 1, Fin 2, Fin 4, Fin 8])]\<rparr>"

text \<open>Stock D as \<open>Stock.__init__\<close> builds it from these, and its daily returns.\<close>

definition stockD :: Stock where
  "stockD =
     \<lparr>name = ''D'', investmentinfo = infoD, stock_data = dataD,
      expectedReturn = [(''D'', Fin 252)], volatility = [(''D'', Fin 0)],
      skew = Fin (81 * sqrt 3 / (23 * sqrt (115 / 4))),
      kurtosis = Fin (2004 / 2645)\<rparr>"

definition returnsD :: DataFrame where
  "returnsD = \<lparr>index = [2, 3, 4], columns = [(''D'', [Fin 1, Fin 1, Fin 1])]\<rparr>"

subsection \<open>The volatility in the words of the specification\<close>

text \<open>
  The daily returns of a price series, \<open>(price[t] - price[t-1]) / price[t-1]\<close> for
  \<open>t > 0\<close>, and the volatility as section 4.3 of the specification words it: the
  standard deviation of the daily returns times \<open>sqrt(freq)\<close>, the standard deviation
  being that of a sample (divisor \<open>n - 1\<close>).
\<close>

fun returns :: "real list \<Rightarrow> real list" where
  "returns (p # q # ps) = (q - p) / p # returns (q # ps)"
| "returns _ = []"

definition spec_volatility :: "real list \<Rightarrow> int \<Rightarrow> real" where
  "spec_volatility prices freq =
     (let r = returns prices; n = real (length r); m = sum_list r / n
      in sqrt (sum_list (map (\<lambda>x. (x - m) ^ 2) r) / (n - 1)) * sqrt (real_of_int freq))"

section \<open>Properties\<close>

subsection \<open>Evaluation of the model\<close>

lemmas model_defs =
  Portfolio_init_def Portfolio_fields_def totalinvestment_setter_def empty_DataFrame_def
  labels_def pd_insert_def pd_set_index_def mean_def moment_def pd_mean_def pd_std_def
  pd_skew_def pd_kurt_def per_column_def cov_pair_def pd_cov_def dailyReturns_def
  historicalMeanReturn_def weightedMean_def weightedStd_def sharpeRatio_def
  getInvestmentInfo_def compDailyReturns_def compExpectedReturn_def compVolatility_def
  values0_def compSkew_def compKurtosis_def Stock_init_def totalinvestment_def
  addStockData_def getitem_FMV_def compPfWeights_def compPfExpectedReturn_def compCovPf_def
  compPfVolatility_def compPfSharpe_def compPfSkew_def compPfKurtosis_def addStock_def
  np_sqrt_def Let_def power2_eq_square power3_eq_cube

lemma Portfolio_init_fields: "Portfolio_init = Portfolio_fields"
  by (simp add: Portfolio_init_def totalinvestment_setter_def)

lemma Stock_init_A: "Stock_init infoA dataA = Inr stockA"
  by (simp add: model_defs stockA_def infoA_def dataA_def)

lemma Stock_init_B: "Stock_init infoB dataB = Inr stockB"
  by (simp add: model_defs stockB_def infoB_def dataB_def)

lemma addStock_A: "addStock Portfolio_init stockA = Inr pfA"
  by (simp add: model_defs stockA_def infoA_def dataA_def pfA_def)

lemma addStock_A_B: "addStock pfA stockB = Inr pfAB"
  by (simp add: model_defs stockA_def infoA_def dataA_def pfA_def stockB_def infoB_def
      dataB_def pfAB_def)

subsection \<open>An empty portfolio\<close>

text \<open>
  C9. The constructor assigns \<open>None\<close> to the property \<open>totalinvestment\<close>; the setter takes
  that as initialisation and assigns nothing, so the private attribute does not exist on
  a fresh portfolio and reading the property raises. Every operation that reads or
  divides by the total investment raises on it as well: \<open>compPfWeights\<close> (already at the
  column \<open>FMV\<close>, which the empty table does not have), \<open>compPfExpectedReturn\<close>,
  \<open>compPfVolatility\<close>, and \<open>optimisePortfolio\<close> with or without a total investment.
\<close>

theorem fresh_portfolio_totalinvestment_faults:
  "totalinvestment_priv Portfolio_init = None
   \<and> totalinvestment Portfolio_init = Inl AttributeError
   \<and> compPfWeights Portfolio_init = Inl KeyError
   \<and> isl (compPfExpectedReturn Portfolio_init freq)
   \<and> isl (compPfVolatility Portfolio_init freq)
   \<and> optimisePortfolio mc Portfolio_init None num_trials riskFreeRate freq plot
       = Inl AttributeError
   \<and> optimisePortfolio mc Portfolio_init (Some t) num_trials riskFreeRate freq plot
       = Inl KeyError"
  by (simp add: Portfolio_init_fields Portfolio_fields_def totalinvestment_def
      compPfWeights_def getitem_FMV_def compPfExpectedReturn_def compPfVolatility_def
      optimisePortfolio_def historicalMeanReturn_def dailyReturns_def compCovPf_def
      empty_DataFrame_def)

subsection \<open>The Sharpe ratio\<close>

text \<open>
  C5. With a volatility of 0 the Sharpe ratio is the condition \<open>UndefinedSharpe\<close>, which
  \<open>compPfSharpe\<close> hands to its caller as it is, with the portfolio unchanged; with any
  other volatility it is \<open>(expectedReturn - riskFreeRate) / volatility\<close>, which
  \<open>compPfSharpe\<close> returns and caches.
\<close>

theorem sharpe_zero_volatility_undefined:
  "sharpeRatio (Fin er) (Fin 0) rf = Inl UndefinedSharpe
   \<and> (vo \<noteq> 0 \<longrightarrow> sharpeRatio (Fin er) (Fin vo) rf = Inr (Fin ((er - rf) / vo)))
   \<and> (pf_expectedReturn self = Some (Fin er) \<and> pf_volatility self = Some (Fin 0) \<longrightarrow>
        compPfSharpe self rf = Inl UndefinedSharpe)
   \<and> (pf_expectedReturn self = Some (Fin er) \<and> pf_volatility self = Some (Fin vo) \<and> vo \<noteq> 0 \<longrightarrow>
        compPfSharpe self rf
        = Inr (Fin ((er - rf) / vo), self\<lparr>sharpe := Some (Fin ((er - rf) / vo))\<rparr>))"
  by (simp add: sharpeRatio_def compPfSharpe_def)

theorem sharpe_zero_volatility_undefined_witness:
  "compPfVolatility pfA 0 = Inr (Fin 0, pfA\<lparr>pf_volatility := Some (Fin 0)\<rparr>)
   \<and> compPfSharpe (pfA\<lparr>pf_volatility := Some (Fin 0)\<rparr>) (5 / 1000) = Inl UndefinedSharpe
   \<and> sharpeRatio (Fin 189) (Fin 0) (5 / 1000) = Inl UndefinedSharpe
   \<and> sharpeRatio (Fin 189) (Fin 2) (5 / 1000) = Inr (Fin (37799 / 400))
   \<and> compPfSharpe (pfA\<lparr>pf_volatility := Some (Fin 2)\<rparr>) (5 / 1000)
     = Inr (Fin (37799 / 400),
            pfA\<lparr>pf_volatility := Some (Fin 2), sharpe := Some (Fin (37799 / 400))\<rparr>)"
  using sharpe_zero_volatility_undefined
          [of 189 "5 / 1000" 2 "pfA\<lparr>pf_volatility := Some (Fin 0)\<rparr>"]
        sharpe_zero_volatility_undefined
          [of 189 "5 / 1000" 2 "pfA\<lparr>pf_volatility := Some (Fin 2)\<rparr>"]
  by (simp add: pfA_def dataA_def infoA_def compPfVolatility_def compCovPf_def dailyReturns_def
      pd_cov_def cov_pair_def mean_def compPfWeights_def getitem_FMV_def totalinvestment_def
      weightedStd_def np_sqrt_def power2_eq_square Let_def)

subsection \<open>The cached statistics\<close>

text \<open>
  C10. A call of \<open>compPfExpectedReturn\<close> or \<open>compPfVolatility\<close> that returns has written its
  result into the cached field and changed nothing else; \<open>compPfSharpe\<close> computes nothing
  anew but reads the two cached fields, so after a call of each with the frequencies
  \<open>f1\<close> and \<open>f2\<close> it returns the ratio of the expected return for \<open>f1\<close> and the
  volatility for \<open>f2\<close>, and writes only the field \<open>sharpe\<close>. The stocks, the table of
  investment information, the price table and the total investment are the same after
  the three calls.
\<close>

theorem cached_statistics_frame:
  "compPfExpectedReturn self f1 = Inr (er, self1) \<Longrightarrow>
   compPfVolatility self1 f2 = Inr (vo, self2) \<Longrightarrow>
   self1 = self\<lparr>pf_expectedReturn := Some er\<rparr>
   \<and> self2 = self\<lparr>pf_expectedReturn := Some er, pf_volatility := Some vo\<rparr>
   \<and> compPfSharpe self2 rf =
       (case sharpeRatio er vo rf of
          Inl e \<Rightarrow> Inl e
        | Inr sh \<Rightarrow> Inr (sh, self2\<lparr>sharpe := Some sh\<rparr>))
   \<and> stocks self2 = stocks self \<and> portfolio self2 = portfolio self
   \<and> pf_stock_data self2 = pf_stock_data self
   \<and> totalinvestment_priv self2 = totalinvestment_priv self"
  by (auto simp: compPfExpectedReturn_def compPfVolatility_def compPfSharpe_def Let_def
      split: sum.splits)

theorem cached_statistics_frame_witness:
  "compPfExpectedReturn pfA 252 = Inr (Fin 189, pfA)
   \<and> compPfVolatility pfA 1 = Inr (Fin (sqrt (1 / 8)), pfA\<lparr>pf_volatility := Some (Fin (sqrt (1 / 8)))\<rparr>)
   \<and> compPfSharpe (pfA\<lparr>pf_volatility := Some (Fin (sqrt (1 / 8)))\<rparr>) (5 / 1000)
     = Inr (Fin (37799 / (200 * sqrt (1 / 8))),
            pfA\<lparr>pf_volatility := Some (Fin (sqrt (1 / 8))),
                sharpe := Some (Fin (37799 / (200 * sqrt (1 / 8))))\<rparr>)
   \<and> sharpe pfA = Some (Fin (37799 / (200 * (sqrt (1 / 8) * sqrt 252))))"
proof -
  have e: "compPfExpectedReturn pfA 252 = Inr (Fin 189, pfA)"
    by (simp add: model_defs pfA_def dataA_def infoA_def)
  have v: "compPfVolatility pfA 1
           = Inr (Fin (sqrt (1 / 8)), pfA\<lparr>pf_volatility := Some (Fin (sqrt (1 / 8)))\<rparr>)"
    by (simp add: model_defs pfA_def dataA_def infoA_def)
  show ?thesis
    using cached_statistics_frame [OF e v, of "5 / 1000"] e v
    by (simp add: sharpeRatio_def pfA_def)
qed

subsection \<open>What a call of addStock leaves behind\<close>

lemma insert_columns_error: "insert_columns d ls cs = Inl (e, d') \<Longrightarrow> e = ValueError"
  by (induction d ls cs rule: insert_columns.induct)
     (auto simp: pd_insert_def Let_def split: if_splits sum.splits)

lemma addStockData_Inr:
  "addStockData self df = Inr self' \<Longrightarrow> \<exists>d. self' = self\<lparr>pf_stock_data := d\<rparr>"
  by (auto simp: addStockData_def split: sum.splits prod.splits)

lemma addStockData_Inl:
  "addStockData self df = Inl (e, self') \<Longrightarrow> e = ValueError \<and> (\<exists>d. self' = self\<lparr>pf_stock_data := d\<rparr>)"
  by (auto simp: addStockData_def pd_set_index_def split: sum.splits prod.splits if_splits
      dest: insert_columns_error)

lemma setter_PyNum:
  "totalinvestment_setter self (PyNum v) =
     (if v \<le> 0 then Inl ValueError else Inr (self\<lparr>totalinvestment_priv := Some v\<rparr>))"
  by (simp add: totalinvestment_setter_def)

lemma compPfExpectedReturn_Inr:
  "compPfExpectedReturn self f = Inr (r, self') \<Longrightarrow> self' = self\<lparr>pf_expectedReturn := Some r\<rparr>"
  by (auto simp: compPfExpectedReturn_def split: sum.splits)

lemma compPfVolatility_Inr:
  "compPfVolatility self f = Inr (r, self') \<Longrightarrow> self' = self\<lparr>pf_volatility := Some r\<rparr>"
  by (auto simp: compPfVolatility_def Let_def split: sum.splits)

lemma compPfSharpe_Inr:
  "compPfSharpe self f = Inr (r, self') \<Longrightarrow> self' = self\<lparr>sharpe := Some r\<rparr>"
  by (auto simp: compPfSharpe_def split: sum.splits option.splits)

lemma addStock_Inr_state:
  assumes "addStock self s = Inr self'"
  shows "portfolio self' = portfolio self @ [investmentinfo s]
       \<and> stocks self' = (stocks self)(name s \<mapsto> s)
       \<and> totalinvestment_priv self' = Some (sum_list (map FMV (portfolio self)) + FMV (investmentinfo s))
       \<and> 0 < sum_list (map FMV (portfolio self)) + FMV (investmentinfo s)"
  using assms
  by (auto simp: addStock_def Let_def setter_PyNum getInvestmentInfo_def
      split: sum.splits prod.splits if_splits
      dest!: addStockData_Inr compPfExpectedReturn_Inr compPfVolatility_Inr compPfSharpe_Inr)

lemma addStock_Inl_state:
  assumes "addStock self s = Inl (e, self')"
  shows "portfolio self' = portfolio self @ [investmentinfo s]
       \<and> stocks self' = (stocks self)(name s \<mapsto> s)"
  using assms
  by (auto simp: addStock_def Let_def setter_PyNum getInvestmentInfo_def
      split: sum.splits prod.splits if_splits
      dest!: addStockData_Inr addStockData_Inl compPfExpectedReturn_Inr compPfVolatility_Inr compPfSharpe_Inr)

lemma addStocks_state:
  "addStocks self0 ss = Inr self \<Longrightarrow> ss \<noteq> [] \<Longrightarrow>
     portfolio self = portfolio self0 @ map investmentinfo ss
   \<and> totalinvestment_priv self = Some (sum_list (map FMV (portfolio self)))
   \<and> 0 < sum_list (map FMV (portfolio self))"
proof (induction ss arbitrary: self0)
  case Nil
  then show ?case by simp
next
  case (Cons s ss)
  from Cons.prems obtain self1 where a: "addStock self0 s = Inr self1"
    and r: "addStocks self1 ss = Inr self"
    by (auto split: sum.splits)
  from addStock_Inr_state [OF a]
  have p1: "portfolio self1 = portfolio self0 @ [investmentinfo s]"
    and t1: "totalinvestment_priv self1 = Some (sum_list (map FMV (portfolio self1)))"
    and pos1: "0 < sum_list (map FMV (portfolio self1))"
    by auto
  show ?case
  proof (cases "ss = []")
    case True
    with r p1 t1 pos1 show ?thesis by auto
  next
    case False
    from Cons.IH [OF r False]
    have "portfolio self = portfolio self1 @ map investmentinfo ss"
      and "totalinvestment_priv self = Some (sum_list (map FMV (portfolio self)))"
      and "0 < sum_list (map FMV (portfolio self))"
      by auto
    with p1 show ?thesis by auto
  qed
qed

subsection \<open>Total investment and weights\<close>

lemma sum_list_weights: "t \<noteq> 0 \<Longrightarrow> sum_list (map (\<lambda>x. x / t) xs) = sum_list xs / (t::real)"
  by (induction xs) (simp_all add: add_divide_distrib)

text \<open>
  C3. After a run of one or more successful calls of \<open>addStock\<close> on a fresh portfolio the
  total investment is the sum of the invested amounts (FMV) of the stocks added, it is
  positive, the weight of each stock is its invested amount divided by the total, and the
  weights sum to 1 (exactly, the floats being idealised as reals).
\<close>

theorem total_investment_and_weights:
  assumes "addStocks Portfolio_init ss = Inr self" and "ss \<noteq> []"
  shows "totalinvestment self = Inr (sum_list (map (\<lambda>s. FMV (investmentinfo s)) ss))
       \<and> 0 < sum_list (map (\<lambda>s. FMV (investmentinfo s)) ss)
       \<and> compPfWeights self
           = Inr (map (\<lambda>s. FMV (investmentinfo s) / sum_list (map (\<lambda>s. FMV (investmentinfo s)) ss)) ss)
       \<and> sum_list (map (\<lambda>s. FMV (investmentinfo s) / sum_list (map (\<lambda>s. FMV (investmentinfo s)) ss)) ss) = 1"
proof -
  let ?t = "sum_list (map (\<lambda>s. FMV (investmentinfo s)) ss)"
  from addStocks_state [OF assms]
  have p: "portfolio self = map investmentinfo ss"
    and t: "totalinvestment_priv self = Some ?t" and pos: "0 < ?t"
    by (auto simp: Portfolio_init_def Portfolio_fields_def totalinvestment_setter_def comp_def)
  have "sum_list (map (\<lambda>s. FMV (investmentinfo s) / ?t) ss) = 1"
    using sum_list_weights [of ?t "map (\<lambda>s. FMV (investmentinfo s)) ss"] pos
    by (simp add: comp_def)
  with p t pos assms(2) show ?thesis
    by (simp add: totalinvestment_def compPfWeights_def getitem_FMV_def comp_def)
qed

theorem total_investment_and_weights_witness:
  "addStocks Portfolio_init [stockA, stockB] = Inr pfAB \<and> [stockA, stockB] \<noteq> []
   \<and> totalinvestment pfAB = Inr 200
   \<and> compPfWeights pfAB = Inr [1 / 4, 3 / 4]"
proof -
  have h: "addStocks Portfolio_init [stockA, stockB] = Inr pfAB"
    by (simp add: addStock_A addStock_A_B)
  show ?thesis
    using total_investment_and_weights [OF h] h
    by (simp add: stockA_def stockB_def infoA_def infoB_def)
qed

subsection \<open>More evaluations\<close>

lemma Stock_init_Z: "Stock_init infoZ dataZ = Inr stockZ"
  by (simp add: model_defs stockZ_def infoZ_def dataZ_def)

lemma Stock_init_C: "Stock_init infoC dataC = Inr stockC"
  by (simp add: model_defs stockC_def infoC_def dataC_def)

lemma Stock_init_A2: "Stock_init infoA2 dataA2 = Inr stockA2"
  by (simp add: model_defs stockA2_def infoA2_def dataA2_def)

lemma addStock_A_A2: "addStock pfA stockA2 = Inr pfAA"
  by (simp add: model_defs stockA_def infoA_def dataA_def pfA_def stockA2_def infoA2_def
      dataA2_def pfAA_def)

lemma addStock_Z:
  "addStock Portfolio_init stockZ
     = Inl (ValueError,
            Portfolio_init\<lparr>portfolio := [infoZ], stocks := [''Z'' \<mapsto> stockZ],
                           pf_stock_data := dataZ\<rparr>)"
  by (simp add: model_defs stockZ_def infoZ_def dataZ_def)

lemma addStock_A_C:
  "addStock pfA stockC
     = Inl (ValueError,
            pfA\<lparr>portfolio := [infoA, infoC], stocks := [''A'' \<mapsto> stockA, ''C'' \<mapsto> stockC]\<rparr>)"
  by (simp add: model_defs stockC_def infoC_def dataC_def pfA_def dataA_def)

lemma addStock_A_A:
  "addStock pfA stockA = Inl (ValueError, pfA\<lparr>portfolio := [infoA, infoA]\<rparr>)"
  by (simp add: model_defs pfA_def stockA_def infoA_def dataA_def)

subsection \<open>The merge of the price columns\<close>

lemma fst_fill: "fst (case x of (l, vs) \<Rightarrow> (l, g vs)) = fst x"
  by (cases x) simp

lemma pd_insert_Inr_labels:
  "pd_insert d c v = Inr d' \<Longrightarrow> labels d' = labels d @ [c] \<and> c \<notin> set (labels d)"
  by (auto simp: pd_insert_def Let_def labels_def fst_fill image_image comp_def
      split: if_splits)

lemma insert_columns_Inr_labels:
  "insert_columns d ls cs = Inr d' \<Longrightarrow>
     labels d' = labels d @ map fst cs \<and> set (map fst cs) \<inter> set (labels d) = {}"
proof (induction d ls cs arbitrary: d' rule: insert_columns.induct)
  case (1 d ls)
  then show ?case by simp
next
  case (2 d ls c v cs)
  from "2.prems" obtain d1 where c1: "count_list ls c = 1" and i: "pd_insert d c v = Inr d1"
    and r: "insert_columns d1 ls cs = Inr d'"
    by (auto split: if_splits sum.splits)
  from pd_insert_Inr_labels [OF i] "2.IH" [OF c1 i r] show ?case by auto
qed

lemma pd_insert_rows:
  "index d \<noteq> [] \<Longrightarrow>
   pd_insert d c v =
     (if length v = length (index d)
      then (if c \<in> set (labels d) then Inl (ValueError, d)
            else Inr (d\<lparr>columns := columns d @ [(c, v)]\<rparr>))
      else Inl (ValueError, d))"
  by (simp add: pd_insert_def)

lemma count_list_distinct: "distinct ls \<Longrightarrow> c \<in> set ls \<Longrightarrow> count_list ls c = 1"
  by (induction ls) auto

lemma insert_columns_rows:
  "index d \<noteq> [] \<Longrightarrow> list_all (\<lambda>(l, v). length v = length (index d)) cs \<Longrightarrow>
   list_all (\<lambda>(l, v). count_list ls l = 1) cs \<Longrightarrow> distinct (map fst cs) \<Longrightarrow>
   set (map fst cs) \<inter> set (labels d) = {} \<Longrightarrow>
   insert_columns d ls cs = Inr (d\<lparr>columns := columns d @ cs\<rparr>)"
proof (induction cs arbitrary: d)
  case Nil
  then show ?case by simp
next
  case (Cons a cs)
  obtain c v where a: "a = (c, v)" by (cases a)
  let ?d1 = "d\<lparr>columns := columns d @ [(c, v)]\<rparr>"
  have "insert_columns ?d1 ls cs = Inr (?d1\<lparr>columns := columns ?d1 @ cs\<rparr>)"
    using Cons.prems a by (intro Cons.IH) (auto simp: labels_def)
  with Cons.prems a show ?case by (simp add: pd_insert_rows)
qed

lemma addStockData_rows:
  assumes "index (pf_stock_data self) \<noteq> []" and "rectangular df"
    and "distinct (labels df)"
    and "set (labels df) \<inter> set (labels (pf_stock_data self)) = {}"
    and "length (index df) = length (index (pf_stock_data self))"
  shows "addStockData self df =
    Inr (self\<lparr>pf_stock_data :=
           \<lparr>index = index df, columns = columns (pf_stock_data self) @ columns df\<rparr>\<rparr>)"
proof -
  have "count_list (labels df) l = 1" if "(l, v) \<in> set (columns df)" for l v
  proof -
    from that have "l \<in> set (labels df)" by (force simp: labels_def)
    with assms(3) show ?thesis by (rule count_list_distinct)
  qed
  then have "list_all (\<lambda>(l, v). count_list (labels df) l = 1) (columns df)"
    by (auto simp: list_all_iff)
  with assms have "insert_columns (pf_stock_data self) (labels df) (columns df)
      = Inr ((pf_stock_data self)\<lparr>columns := columns (pf_stock_data self) @ columns df\<rparr>)"
    by (intro insert_columns_rows) (auto simp: rectangular_def labels_def)
  with assms(5) show ?thesis
    by (simp add: addStockData_def pd_set_index_def)
qed

lemma addStock_length_mismatch:
  assumes "index (pf_stock_data self) \<noteq> []" and "columns (stock_data s) = (c, v) # cs"
    and "length v \<noteq> length (index (pf_stock_data self))"
  shows "addStock self s =
    Inl (ValueError, self\<lparr>stocks := (stocks self)(name s \<mapsto> s),
                           portfolio := portfolio self @ [investmentinfo s]\<rparr>)"
  using assms
  by (simp add: addStock_def Let_def addStockData_def pd_insert_rows getInvestmentInfo_def)

lemma addStockData_Inr_labels:
  assumes "addStockData self df = Inr self'"
  shows "labels (pf_stock_data self') = labels (pf_stock_data self) @ labels df
       \<and> set (labels df) \<inter> set (labels (pf_stock_data self)) = {}"
proof -
  from assms obtain d where
    i: "insert_columns (pf_stock_data self) (labels df) (columns df) = Inr d"
    and t: "pf_stock_data self' = d\<lparr>index := index df\<rparr>"
    by (auto simp: addStockData_def pd_set_index_def split: sum.splits prod.splits if_splits)
  from t have "labels (pf_stock_data self') = labels d"
    by (simp add: labels_def)
  with insert_columns_Inr_labels [OF i] show ?thesis
    by (simp add: labels_def)
qed

lemma addStock_Inr_table:
  assumes "addStock self s = Inr self'"
  shows "labels (pf_stock_data self') = labels (pf_stock_data self) @ labels (stock_data s)
       \<and> set (labels (stock_data s)) \<inter> set (labels (pf_stock_data self)) = {}"
proof -
  from assms obtain self3 where
    a: "addStockData (self\<lparr>stocks := (stocks self)(name s \<mapsto> s),
           portfolio := portfolio self @ [investmentinfo s]\<rparr>) (stock_data s) = Inr self3"
    and t: "pf_stock_data self' = pf_stock_data self3"
    by (auto simp: addStock_def Let_def setter_PyNum getInvestmentInfo_def
        split: sum.splits prod.splits if_splits
        dest!: compPfExpectedReturn_Inr compPfVolatility_Inr compPfSharpe_Inr)
  from addStockData_Inr_labels [OF a] t show ?thesis by simp
qed

lemma addStock_label_clash:
  assumes "set (labels (stock_data s)) \<inter> set (labels (pf_stock_data self)) \<noteq> {}"
  shows "\<exists>self'. addStock self s = Inl (ValueError, self')"
proof (cases "addStockData (self\<lparr>stocks := (stocks self)(name s \<mapsto> s),
           portfolio := portfolio self @ [investmentinfo s]\<rparr>) (stock_data s)")
  case (Inl ep)
  obtain e p where "ep = (e, p)" by (cases ep)
  with Inl addStockData_Inl [of _ "stock_data s" e p] show ?thesis
    by (auto simp: addStock_def Let_def getInvestmentInfo_def)
next
  case (Inr self3)
  from addStockData_Inr_labels [OF Inr] assms show ?thesis by simp
qed

subsection \<open>A failed call of addStock\<close>

lemma compPfWeights_Inl: "compPfWeights self = Inl e \<Longrightarrow> e \<noteq> ValueError"
  by (auto simp: compPfWeights_def getitem_FMV_def totalinvestment_def
      split: if_splits sum.splits option.splits)

lemma compPfExpectedReturn_Inl: "compPfExpectedReturn self f = Inl e \<Longrightarrow> e \<noteq> ValueError"
  by (auto simp: compPfExpectedReturn_def historicalMeanReturn_def dailyReturns_def
      weightedMean_def split: if_splits sum.splits dest: compPfWeights_Inl)

lemma compPfVolatility_Inl: "compPfVolatility self f = Inl e \<Longrightarrow> e \<noteq> ValueError"
  by (auto simp: compPfVolatility_def compCovPf_def dailyReturns_def weightedStd_def Let_def
      split: if_splits sum.splits dest: compPfWeights_Inl)

lemma compPfSharpe_Inl: "compPfSharpe self f = Inl e \<Longrightarrow> e \<noteq> ValueError"
  by (auto simp: compPfSharpe_def sharpeRatio_def split: if_splits sum.splits option.splits)

lemma addStock_ValueError_state:
  assumes "addStock self s = Inl (ValueError, self')"
  shows "totalinvestment_priv self' = totalinvestment_priv self
       \<and> pf_expectedReturn self' = pf_expectedReturn self
       \<and> pf_volatility self' = pf_volatility self \<and> sharpe self' = sharpe self
       \<and> pf_skew self' = pf_skew self \<and> pf_kurtosis self' = pf_kurtosis self"
  using assms
  by (auto simp: addStock_def Let_def setter_PyNum getInvestmentInfo_def
      split: sum.splits prod.splits if_splits
      dest!: addStockData_Inr addStockData_Inl
      dest: compPfExpectedReturn_Inl compPfVolatility_Inl compPfSharpe_Inl)

lemma addStock_nonpositive_total:
  assumes "addStockData (self\<lparr>stocks := (stocks self)(name s \<mapsto> s),
                               portfolio := portfolio self @ [investmentinfo s]\<rparr>)
             (stock_data s) = Inr self3"
    and "sum_list (map FMV (portfolio self)) + FMV (investmentinfo s) \<le> 0"
  shows "addStock self s = Inl (ValueError, self3)"
  using assms addStockData_Inr [OF assms(1)]
  by (auto simp: addStock_def Let_def setter_PyNum getInvestmentInfo_def)

text \<open>
  C1 as stated does not hold. Stock Z, with nothing invested, is refused by a fresh
  portfolio for its total investment of 0, and stock C, with two rows of prices, is
  refused by \<open>pfA\<close>, whose table has three; in both cases the portfolio at the raise
  already holds the stock in \<open>stocks\<close> and its row in \<open>portfolio\<close>, and for stock Z also its
  column in \<open>pf_stock_data\<close>.
\<close>

theorem failed_addStock_counterexample:
  "addStock Portfolio_init stockZ
     = Inl (ValueError,
            Portfolio_init\<lparr>portfolio := [infoZ], stocks := [''Z'' \<mapsto> stockZ],
                           pf_stock_data := dataZ\<rparr>)
   \<and> portfolio Portfolio_init = [] \<and> stocks Portfolio_init ''Z'' = None
   \<and> pf_stock_data Portfolio_init = empty_DataFrame
   \<and> addStock pfA stockC
     = Inl (ValueError,
            pfA\<lparr>portfolio := [infoA, infoC], stocks := [''A'' \<mapsto> stockA, ''C'' \<mapsto> stockC]\<rparr>)
   \<and> portfolio pfA = [infoA] \<and> stocks pfA ''C'' = None"
  by (simp add: addStock_Z addStock_A_C)
     (simp add: Portfolio_init_fields Portfolio_fields_def pfA_def)

text \<open>
  C1, amended. A failed \<open>addStock\<close> is not rolled back: whenever it raises, \<open>stocks\<close>
  already binds the name of the stock to it and \<open>portfolio\<close> already has its row. When the
  error is the \<open>ValueError\<close> of the merge or of the total investment, the total investment
  and the cached statistics are those of before the call; and when the merge has gone
  through and the sum of the invested amounts is not positive, the call raises
  \<open>ValueError\<close> with the merged price table in place.
\<close>

theorem failed_addStock_partially_applied:
  "(addStock self s = Inl (e, self') \<longrightarrow>
      stocks self' = (stocks self)(name s \<mapsto> s)
      \<and> portfolio self' = portfolio self @ [investmentinfo s])
   \<and> (addStock self s = Inl (ValueError, self') \<longrightarrow>
        totalinvestment_priv self' = totalinvestment_priv self
        \<and> pf_expectedReturn self' = pf_expectedReturn self
        \<and> pf_volatility self' = pf_volatility self \<and> sharpe self' = sharpe self
        \<and> pf_skew self' = pf_skew self \<and> pf_kurtosis self' = pf_kurtosis self)
   \<and> (addStockData (self\<lparr>stocks := (stocks self)(name s \<mapsto> s),
                            portfolio := portfolio self @ [investmentinfo s]\<rparr>)
          (stock_data s) = Inr self3
        \<and> sum_list (map FMV (portfolio self)) + FMV (investmentinfo s) \<le> 0 \<longrightarrow>
        addStock self s = Inl (ValueError, self3))"
  using addStock_Inl_state [of self s e self'] addStock_ValueError_state [of self s self']
    addStock_nonpositive_total [of self s self3]
  by blast

theorem failed_addStock_partially_applied_witness:
  "addStock Portfolio_init stockZ
     = Inl (ValueError,
            Portfolio_init\<lparr>portfolio := [infoZ], stocks := [''Z'' \<mapsto> stockZ],
                           pf_stock_data := dataZ\<rparr>)
   \<and> addStockData (Portfolio_init\<lparr>stocks := [''Z'' \<mapsto> stockZ], portfolio := [infoZ]\<rparr>) dataZ
     = Inr (Portfolio_init\<lparr>portfolio := [infoZ], stocks := [''Z'' \<mapsto> stockZ],
                           pf_stock_data := dataZ\<rparr>)
   \<and> sum_list (map FMV (portfolio Portfolio_init)) + FMV infoZ \<le> 0
   \<and> totalinvestment_priv
        (Portfolio_init\<lparr>portfolio := [infoZ], stocks := [''Z'' \<mapsto> stockZ],
                        pf_stock_data := dataZ\<rparr>) = None"
proof -
  let ?X = "Portfolio_init\<lparr>portfolio := [infoZ], stocks := [''Z'' \<mapsto> stockZ],
                           pf_stock_data := dataZ\<rparr>"
  have d: "addStockData (Portfolio_init\<lparr>stocks := [''Z'' \<mapsto> stockZ], portfolio := [infoZ]\<rparr>) dataZ
           = Inr ?X"
    by (simp add: model_defs dataZ_def)
  have t: "sum_list (map FMV (portfolio Portfolio_init)) + FMV infoZ \<le> 0"
    by (simp add: model_defs infoZ_def)
  show ?thesis
    using failed_addStock_partially_applied [of Portfolio_init stockZ ValueError ?X ?X] d t
    by (simp add: addStock_Z) (simp add: model_defs stockZ_def)
qed

subsection \<open>Stocks with other dates\<close>

text \<open>
  C2 as stated does not hold. The table of \<open>pfA\<close> has the days 1, 2, 3 and stock B the
  days 4, 5, 6; \<open>addStock\<close> raises nothing, puts the prices of B beside those of A row by
  row, and the table has the index of B afterwards.
\<close>

theorem disjoint_dates_counterexample:
  "addStock pfA stockB = Inr pfAB
   \<and> index (pf_stock_data pfA) = [1, 2, 3]
   \<and> index (stock_data stockB) = [4, 5, 6]
   \<and> pf_stock_data pfAB
     = \<lparr>index = [4, 5, 6],
        columns = [(''A'', [Fin 1, Fin 2, Fin 3]), (''B'', [Fin 4, Fin 6, Fin 8])]\<rparr>"
  by (simp add: addStock_A_B) (simp add: pfA_def dataA_def stockB_def dataB_def pfAB_def)

text \<open>
  C2, amended. The dates are never compared. Once the price table has rows, \<open>addStock\<close>
  raises \<open>ValueError\<close> if the first column of the stock has another number of values than
  the table has rows (the stock being in \<open>stocks\<close> and \<open>portfolio\<close> by then); and
  \<open>_addStockData\<close> merges any rectangular frame with as many rows as the table and with
  distinct, new labels by position, whatever its dates, and replaces the index of the
  table by that of the frame. A frame with the dates of the table is one such.
\<close>

theorem merge_is_positional:
  "(index (pf_stock_data self) \<noteq> [] \<and> columns (stock_data s) = (c, v) # cs
      \<and> length v \<noteq> length (index (pf_stock_data self)) \<longrightarrow>
      addStock self s =
        Inl (ValueError, self\<lparr>stocks := (stocks self)(name s \<mapsto> s),
                               portfolio := portfolio self @ [investmentinfo s]\<rparr>))
   \<and> (index (pf_stock_data self) \<noteq> [] \<and> rectangular df \<and> distinct (labels df)
      \<and> set (labels df) \<inter> set (labels (pf_stock_data self)) = {}
      \<and> length (index df) = length (index (pf_stock_data self)) \<longrightarrow>
      addStockData self df =
        Inr (self\<lparr>pf_stock_data :=
               \<lparr>index = index df, columns = columns (pf_stock_data self) @ columns df\<rparr>\<rparr>))"
  using addStock_length_mismatch [of self s c v cs] addStockData_rows [of self df]
  by blast

theorem merge_is_positional_witness:
  "index (pf_stock_data pfA) \<noteq> [] \<and> columns (stock_data stockC) = [(''C'', [Fin 1, Fin 2])]
   \<and> length [Fin 1, Fin (2::real)] \<noteq> length (index (pf_stock_data pfA))
   \<and> addStock pfA stockC =
        Inl (ValueError, pfA\<lparr>stocks := (stocks pfA)(name stockC \<mapsto> stockC),
                              portfolio := portfolio pfA @ [investmentinfo stockC]\<rparr>)
   \<and> rectangular dataB \<and> distinct (labels dataB)
   \<and> set (labels dataB) \<inter> set (labels (pf_stock_data pfA)) = {}
   \<and> length (index dataB) = length (index (pf_stock_data pfA))
   \<and> addStockData pfA dataB =
        Inr (pfA\<lparr>pf_stock_data :=
               \<lparr>index = [4, 5, 6],
                columns = [(''A'', [Fin 1, Fin 2, Fin 3]), (''B'', [Fin 4, Fin 6, Fin 8])]\<rparr>\<rparr>)"
  using merge_is_positional [of pfA stockC "''C''" "[Fin 1, Fin 2]" "[]" dataB]
  by (simp add: pfA_def dataA_def stockC_def dataC_def dataB_def rectangular_def labels_def)

subsection \<open>A name that is already in the portfolio\<close>

text \<open>
  C4 as stated does not hold. \<open>pfA\<close> holds a stock of the name A; adding \<open>stockA2\<close>, of the
  same name with its prices under another label, succeeds and leaves one key in \<open>stocks\<close>
  but two rows of that name in \<open>portfolio\<close>, two columns in the price table, and a total
  investment and weights that count both rows. Adding \<open>stockA\<close> itself again raises
  \<open>ValueError\<close> for the label of its column, after its row has been appended.
\<close>

theorem duplicate_name_counterexample:
  "stocks pfA ''A'' = Some stockA \<and> name stockA2 = ''A''
   \<and> addStock pfA stockA2 = Inr pfAA
   \<and> dom (stocks pfAA) = {''A''}
   \<and> map Name (portfolio pfAA) = [''A'', ''A'']
   \<and> labels (pf_stock_data pfAA) = [''A'', ''A - Adj. Close'']
   \<and> totalinvestment pfAA = Inr 200
   \<and> compPfWeights pfAA = Inr [1 / 4, 3 / 4]
   \<and> addStock pfA stockA = Inl (ValueError, pfA\<lparr>portfolio := [infoA, infoA]\<rparr>)"
  by (simp add: addStock_A_A2 addStock_A_A)
     (simp add: model_defs pfA_def pfAA_def stockA_def stockA2_def infoA_def infoA2_def dataA_def)

text \<open>
  C4, amended. Adding a stock whose name is already a key of \<open>stocks\<close> overwrites that
  entry and leaves the keys as they are, but \<open>portfolio\<close> gains a further row, whether the
  call returns or raises. If a label of the stock's columns is already in the price table
  the call raises \<open>ValueError\<close>; if it returns, the price table has gained the stock's
  columns and the total investment is the old sum of the invested amounts plus that of
  the stock, so the name is counted once per call.
\<close>

theorem duplicate_name_add:
  assumes "stocks self (name s) = Some old"
  shows "(addStock self s = Inr self' \<or> addStock self s = Inl (e, self') \<longrightarrow>
            stocks self' = (stocks self)(name s \<mapsto> s)
            \<and> dom (stocks self') = dom (stocks self)
            \<and> portfolio self' = portfolio self @ [investmentinfo s])
       \<and> (set (labels (stock_data s)) \<inter> set (labels (pf_stock_data self)) \<noteq> {} \<longrightarrow>
            (\<exists>self''. addStock self s = Inl (ValueError, self'')))
       \<and> (addStock self s = Inr self' \<longrightarrow>
            totalinvestment self'
              = Inr (sum_list (map FMV (portfolio self)) + FMV (investmentinfo s))
            \<and> labels (pf_stock_data self')
              = labels (pf_stock_data self) @ labels (stock_data s))"
proof -
  have d: "dom ((stocks self)(name s \<mapsto> s)) = dom (stocks self)"
    using assms by auto
  show ?thesis
    using addStock_Inr_state [of self s self'] addStock_Inl_state [of self s e self']
      addStock_label_clash [of s self] addStock_Inr_table [of self s self'] d
    by (auto simp: totalinvestment_def)
qed

theorem duplicate_name_add_witness:
  "stocks pfA (name stockA2) = Some stockA
   \<and> addStock pfA stockA2 = Inr pfAA
   \<and> stocks pfAA = (stocks pfA)(''A'' \<mapsto> stockA2) \<and> dom (stocks pfAA) = dom (stocks pfA)
   \<and> portfolio pfAA = portfolio pfA @ [infoA2]
   \<and> totalinvestment pfAA = Inr 200
   \<and> set (labels (stock_data stockA)) \<inter> set (labels (pf_stock_data pfA)) \<noteq> {}
   \<and> (\<exists>self''. addStock pfA stockA = Inl (ValueError, self''))"
proof -
  have h: "stocks pfA (name stockA2) = Some stockA"
    by (simp add: pfA_def stockA2_def)
  have h': "stocks pfA (name stockA) = Some stockA"
    by (simp add: pfA_def stockA_def)
  have c: "set (labels (stock_data stockA)) \<inter> set (labels (pf_stock_data pfA)) \<noteq> {}"
    by (simp add: pfA_def stockA_def dataA_def labels_def)
  show ?thesis
    using duplicate_name_add [OF h, of pfAA ValueError] duplicate_name_add [OF h', of pfAA ValueError] h c
    by (simp add: addStock_A_A2) (simp add: pfA_def stockA2_def infoA_def infoA2_def)
qed

subsection \<open>Skew and kurtosis of a stock\<close>

lemma Stock_init_D: "Stock_init infoD dataD = Inr stockD"
  by (simp add: model_defs infoD_def dataD_def stockD_def power_divide)

lemma dailyReturns_D: "dailyReturns dataD = Inr returnsD"
  by (simp add: dailyReturns_def dataD_def returnsD_def)

text \<open>
  C6 as stated does not hold. The prices 1, 2, 4, 8 of stock D double every day, so its
  daily returns are 1, 1, 1: their skew is 0 and their kurtosis is not defined. The skew
  and the kurtosis that the constructor caches are neither: they are those of the four
  prices.
\<close>

theorem skew_of_prices_counterexample:
  "Stock_init infoD dataD = Inr stockD
   \<and> dailyReturns (stock_data stockD) = Inr returnsD
   \<and> per_column pd_skew returnsD = [(''D'', Fin 0)]
   \<and> per_column pd_kurt returnsD = [(''D'', NaN)]
   \<and> skew stockD \<noteq> Fin 0 \<and> kurtosis stockD \<noteq> NaN"
  by (simp add: Stock_init_D)
     (simp add: stockD_def dailyReturns_D returnsD_def per_column_def pd_skew_def pd_kurt_def
      moment_def mean_def)

lemma values0_per_column:
  "values0 (per_column f d) = Inr x \<Longrightarrow>
     \<exists>l prices rest. columns d = (l, prices) # rest \<and> x = f prices"
  by (auto simp: values0_def per_column_def split: list.splits)

text \<open>
  C6, amended. The skew and the kurtosis that the constructor caches are the sample skew
  and excess kurtosis of the raw prices in the first column of \<open>stock_data\<close>, not of the
  returns. They are computed once, by methods that take no \<open>freq\<close>, and computing them
  again on the constructed stock gives the cached values.
\<close>

theorem skew_kurtosis_of_prices:
  assumes "Stock_init info data = Inr s"
  shows "stock_data s = data
       \<and> (\<exists>l prices rest. columns data = (l, prices) # rest
             \<and> skew s = pd_skew prices \<and> kurtosis s = pd_kurt prices)
       \<and> compSkew s = Inr (skew s) \<and> compKurtosis s = Inr (kurtosis s)"
proof -
  from assms obtain er vo sk ku where
    sk: "values0 (per_column pd_skew data) = Inr sk"
    and ku: "values0 (per_column pd_kurt data) = Inr ku"
    and s: "s = \<lparr>name = Name info, investmentinfo = info, stock_data = data,
                 expectedReturn = er, volatility = vo, skew = sk, kurtosis = ku\<rparr>"
    by (auto simp: Stock_init_def Let_def compSkew_def compKurtosis_def split: sum.splits)
  from values0_per_column [OF sk] values0_per_column [OF ku] sk ku s show ?thesis
    by (auto simp: compSkew_def compKurtosis_def)
qed

theorem skew_kurtosis_of_prices_witness:
  "Stock_init infoD dataD = Inr stockD
   \<and> skew stockD = pd_skew [Fin 1, Fin 2, Fin 4, Fin 8]
   \<and> kurtosis stockD = pd_kurt [Fin 1, Fin 2, Fin 4, Fin 8]
   \<and> compSkew stockD = Inr (Fin (81 * sqrt 3 / (23 * sqrt (115 / 4))))
   \<and> compKurtosis stockD = Inr (Fin (2004 / 2645))"
  using skew_kurtosis_of_prices [OF Stock_init_D]
  by (simp add: Stock_init_D) (simp add: stockD_def dataD_def)

subsection \<open>The volatility of a stock\<close>

lemma pct_change_Fin:
  "list_all (\<lambda>p. 0 < p) ps \<Longrightarrow> pct_change (map Fin ps) = map Fin (returns ps)"
  by (induction ps rule: returns.induct) auto

lemma dropna_Fin: "dropna (map Fin xs) = xs"
  by (induction xs) auto

lemma length_returns: "length (returns ps) = length ps - 1"
  by (induction ps rule: returns.induct) auto

lemma pd_std_returns:
  "list_all (\<lambda>p. 0 < p) ps \<Longrightarrow> 0 < freq \<Longrightarrow>
   nmul (pd_std (pct_change (map Fin ps))) (np_sqrt (real_of_int freq))
     = (if 3 \<le> length ps then Fin (spec_volatility ps freq) else NaN)"
  by (auto simp: pct_change_Fin dropna_Fin pd_std_def np_sqrt_def spec_volatility_def Let_def
      moment_def mean_def length_returns)

text \<open>
  C7. For a stock whose price table has rows and holds positive prices, and a positive
  \<open>freq\<close>, \<open>compVolatility\<close> gives for each column the standard deviation of its daily
  percentage returns times \<open>sqrt(freq)\<close>; with fewer than three prices there are fewer than
  two returns and the standard deviation is NaN.
\<close>

theorem volatility_is_annualised_std:
  assumes "columns (stock_data s) = map (\<lambda>(l, ps). (l, map Fin ps)) cols"
    and "index (stock_data s) \<noteq> []"
    and "list_all (\<lambda>(l, ps). list_all (\<lambda>p. 0 < p) ps) cols"
    and "0 < freq"
  shows "compVolatility s freq
    = Inr (map (\<lambda>(l, ps). (l, if 3 \<le> length ps then Fin (spec_volatility ps freq) else NaN))
             cols)"
proof -
  have "(case x of (l, ps) \<Rightarrow>
            (l, nmul (pd_std (pct_change (map Fin ps))) (np_sqrt (real_of_int freq))))
        = (case x of (l, ps) \<Rightarrow>
            (l, if 3 \<le> length ps then Fin (spec_volatility ps freq) else NaN))"
    if "x \<in> set cols" for x
    using that assms(3,4) by (cases x) (auto simp: list_all_iff pd_std_returns)
  then show ?thesis
    using assms(1,2)
    by (simp add: compVolatility_def compDailyReturns_def dailyReturns_def per_column_def
        comp_def case_prod_unfold)
qed

theorem volatility_is_annualised_std_witness:
  "columns (stock_data stockA) = map (\<lambda>(l, ps). (l, map Fin ps)) [(''A'', [1, 2, 3])]
   \<and> index (stock_data stockA) \<noteq> []
   \<and> list_all (\<lambda>(l, ps). list_all (\<lambda>p. 0 < p) ps) [(''A'', [1, 2, 3::real])]
   \<and> compVolatility stockA 252 = Inr [(''A'', Fin (spec_volatility [1, 2, 3] 252))]
   \<and> spec_volatility [1, 2, 3] 252 = sqrt (1 / 8) * sqrt 252"
proof -
  have c: "columns (stock_data stockA) = map (\<lambda>(l, ps). (l, map Fin ps)) [(''A'', [1, 2, 3])]"
    and i: "index (stock_data stockA) \<noteq> []"
    by (simp_all add: stockA_def dataA_def)
  have p: "list_all (\<lambda>(l, ps). list_all (\<lambda>p. 0 < p) ps) [(''A'', [1, 2, 3::real])]"
    by simp
  have v: "spec_volatility [1, 2, 3] 252 = sqrt (1 / 8) * sqrt 252"
    by (simp add: spec_volatility_def power2_eq_square)
  show ?thesis
    using volatility_is_annualised_std [OF c i p, of 252] c i v by simp
qed

subsection \<open>A portfolio of one stock\<close>

lemma dot_single: "nadd (nmul m (Fin 1)) (Fin 0) = m"
  by (cases m) simp_all

lemma addStock_Inr_merge:
  assumes "addStock self s = Inr self'"
  obtains self3 where
    "addStockData (self\<lparr>stocks := (stocks self)(name s \<mapsto> s),
        portfolio := portfolio self @ [investmentinfo s]\<rparr>) (stock_data s) = Inr self3"
    and "pf_stock_data self' = pf_stock_data self3"
  using assms
  by (auto simp: addStock_def Let_def setter_PyNum getInvestmentInfo_def
      split: sum.splits prod.splits if_splits
      dest!: compPfExpectedReturn_Inr compPfVolatility_Inr compPfSharpe_Inr)

lemma addStock_Inr_expectedReturn:
  assumes "addStock self s = Inr self'"
    and "addStockData (self\<lparr>stocks := (stocks self)(name s \<mapsto> s),
        portfolio := portfolio self @ [investmentinfo s]\<rparr>) (stock_data s) = Inr self3"
  shows "\<exists>er self5. compPfExpectedReturn
           (self3\<lparr>totalinvestment_priv := Some (sum_list (map FMV (portfolio self3)))\<rparr>) 252
         = Inr (er, self5)"
proof (cases "compPfExpectedReturn
           (self3\<lparr>totalinvestment_priv := Some (sum_list (map FMV (portfolio self3)))\<rparr>) 252")
  case (Inl e)
  with assms show ?thesis
    by (auto simp: addStock_def Let_def setter_PyNum getInvestmentInfo_def split: if_splits)
next
  case (Inr p)
  then show ?thesis by (cases p) simp
qed

lemma addStock_fresh_state:
  assumes "addStock Portfolio_init s = Inr self"
  shows "(\<exists>c v. columns (stock_data s) = [(c, v)])
       \<and> index (stock_data s) \<noteq> []
       \<and> pf_stock_data self = stock_data s
       \<and> portfolio self = [investmentinfo s]
       \<and> totalinvestment_priv self = Some (FMV (investmentinfo s))
       \<and> 0 < FMV (investmentinfo s)"
proof -
  let ?df = "stock_data s"
  let ?self2 = "Portfolio_init\<lparr>stocks := (stocks Portfolio_init)(name s \<mapsto> s),
                  portfolio := portfolio Portfolio_init @ [investmentinfo s]\<rparr>"
  from addStock_Inr_state [OF assms]
  have p: "portfolio self = [investmentinfo s]"
    and t: "totalinvestment_priv self = Some (FMV (investmentinfo s))"
    and pos: "0 < FMV (investmentinfo s)"
    by (auto simp: Portfolio_init_fields Portfolio_fields_def)
  from assms obtain self3 where
    a: "addStockData ?self2 ?df = Inr self3"
    and td: "pf_stock_data self = pf_stock_data self3"
    by (rule addStock_Inr_merge)
  from addStock_Inr_expectedReturn [OF assms a] obtain r self5 where
    e: "compPfExpectedReturn
              (self3\<lparr>totalinvestment_priv := Some (sum_list (map FMV (portfolio self3)))\<rparr>) 252
            = Inr (r, self5)"
    by blast
  from addStockData_Inr [OF a] obtain d where s3: "self3 = ?self2\<lparr>pf_stock_data := d\<rparr>"
    by blast
  from e s3 have ix: "index d \<noteq> []" and one: "length (columns d) = 1"
    by (auto simp: compPfExpectedReturn_def historicalMeanReturn_def dailyReturns_def
        compPfWeights_def getitem_FMV_def totalinvestment_def weightedMean_def per_column_def
        Portfolio_init_fields Portfolio_fields_def
        split: sum.splits if_splits)
  from addStockData_Inr_labels [OF a] s3
  have "length (labels d) = length (labels ?df)"
    by (simp add: Portfolio_init_fields Portfolio_fields_def empty_DataFrame_def labels_def)
  with one obtain c v where cv: "columns ?df = [(c, v)]"
    by (cases "columns ?df") (auto simp: labels_def)
  from a s3 cv ix have "d = ?df"
    by (cases ?df)
       (auto simp: addStockData_def labels_def pd_insert_def pd_set_index_def Let_def
        Portfolio_init_fields Portfolio_fields_def empty_DataFrame_def
        split: sum.splits prod.splits if_splits)
  with td s3 cv p t pos ix show ?thesis by simp
qed

text \<open>
  C8. When a stock has been added to a fresh portfolio, the weights are \<open>[1]\<close> and for
  every positive \<open>freq\<close> the expected return of the portfolio is the expected return of
  the stock for that \<open>freq\<close> (\<open>compExpectedReturn\<close> gives it as the one entry of a series).
\<close>

theorem single_stock_portfolio:
  assumes "addStock Portfolio_init s = Inr self" and "0 < freq"
  shows "compPfWeights self = Inr [1]
       \<and> (\<exists>l r. compExpectedReturn s freq = Inr [(l, r)]
              \<and> compPfExpectedReturn self freq = Inr (r, self\<lparr>pf_expectedReturn := Some r\<rparr>))"
proof -
  from addStock_fresh_state [OF assms(1)] obtain c v where
    cv: "columns (stock_data s) = [(c, v)]"
    and ix: "index (stock_data s) \<noteq> []"
    and td: "pf_stock_data self = stock_data s"
    and p: "portfolio self = [investmentinfo s]"
    and t: "totalinvestment_priv self = Some (FMV (investmentinfo s))"
    and pos: "0 < FMV (investmentinfo s)"
    by blast
  have w: "compPfWeights self = Inr [1]"
    using p t pos by (simp add: compPfWeights_def getitem_FMV_def totalinvestment_def)
  let ?r = "nmul (pd_mean (pct_change v)) (Fin (real_of_int freq))"
  have h: "historicalMeanReturn (stock_data s) freq = Inr [(c, ?r)]"
    using cv ix assms(2)
    by (simp add: historicalMeanReturn_def dailyReturns_def per_column_def)
  have "compPfExpectedReturn self freq = Inr (?r, self\<lparr>pf_expectedReturn := Some ?r\<rparr>)"
    using h w td by (simp add: compPfExpectedReturn_def weightedMean_def dot_single)
  with h w show ?thesis
    by (simp add: compExpectedReturn_def)
qed

theorem single_stock_portfolio_witness:
  "addStock Portfolio_init stockA = Inr pfA \<and> (0::int) < 21
   \<and> compPfWeights pfA = Inr [1]
   \<and> compExpectedReturn stockA 21 = Inr [(''A'', Fin (63 / 4))]
   \<and> compPfExpectedReturn pfA 21
     = Inr (Fin (63 / 4), pfA\<lparr>pf_expectedReturn := Some (Fin (63 / 4))\<rparr>)"
proof -
  have e: "compExpectedReturn stockA 21 = Inr [(''A'', Fin (63 / 4))]"
    by (simp add: model_defs stockA_def dataA_def)
  show ?thesis
    using single_stock_portfolio [OF addStock_A, of 21] e
    by (simp add: addStock_A)
qed

end
